theory Spec2Isabelle
  imports Main "HOL-Library.Word"
begin

section \<open>Values of the host language\<close>

text \<open>
  The backend in \<^verbatim>\<open>sendgrid_backend/mail.py\<close> is Python. A Python \<^verbatim>\<open>str\<close> is modelled
  as a \<open>string\<close> in which every character stands for one code point below 256, so that
  \<open>length\<close> is Python's \<^verbatim>\<open>len\<close>; \<^verbatim>\<open>bytes\<close> are lists of 8-bit words. Fields that the
  code probes with \<^verbatim>\<open>hasattr\<close> are \<open>option\<close>s (\<open>None\<close>: the attribute is missing), and
  fields whose run-time type the code tests with \<^verbatim>\<open>isinstance\<close> hold a \<open>pyval\<close>.
\<close>

datatype pyval =
    PyNone
  | PyBool bool
  | PyInt int
  | PyStr string
  | PyList "pyval list"
  | PyDict "(string \<times> pyval) list"

type_synonym bytes = "8 word list"

text \<open>What \<^verbatim>\<open>msg.reply_to\<close> holds, and what is handed to the address parser: one address or a
  list of addresses.\<close>

datatype addr_arg = AddrStr string | AddrList "string list"

fun truthy :: "addr_arg \<Rightarrow> bool" where
  "truthy (AddrStr s) = (s \<noteq> [])"
| "truthy (AddrList ss) = (ss \<noteq> [])"

text \<open>\<^verbatim>\<open>isinstance(x, basestring)\<close> and \<^verbatim>\<open>isinstance(x, int)\<close> (a Python \<^verbatim>\<open>bool\<close> is an
  \<^verbatim>\<open>int\<close>).\<close>

fun is_basestring :: "pyval \<Rightarrow> bool" where
  "is_basestring (PyStr s) = True"
| "is_basestring v = False"

fun is_int :: "pyval \<Rightarrow> bool" where
  "is_int (PyInt i) = True"
| "is_int (PyBool b) = True"
| "is_int v = False"

text \<open>\<^verbatim>\<open>str.lower\<close> on code points below 256: the ASCII capitals and the Latin-1 capitals
  (192 to 222 except the multiplication sign 215) move up by 32.\<close>

definition lower_char :: "char \<Rightarrow> char" where
  "lower_char c =
     (let n = (of_char c :: nat)
      in if (65 \<le> n \<and> n \<le> 90) \<or> (192 \<le> n \<and> n \<le> 222 \<and> n \<noteq> 215)
         then char_of (n + 32) else c)"

definition lower :: "string \<Rightarrow> string" where
  "lower s = map lower_char s"

section \<open>The source message\<close>

text \<open>A structured attachment (\<^verbatim>\<open>MIMEBase\<close>) is read through four accessors only:
  \<^verbatim>\<open>get_filename()\<close>, \<^verbatim>\<open>get_content_type()\<close>, \<^verbatim>\<open>get_payload()\<close> and
  \<^verbatim>\<open>get("Content-ID")\<close>.\<close>

record mime_part =
  get_filename :: "string option"
  get_content_type :: string
  get_payload :: string
  get_content_id :: "string option"

datatype att_content = Text string | Bytes bytes

datatype attch =
    MIMEBase mime_part
  | Tuple string att_content string  \<comment> \<open>\<^verbatim>\<open>(filename, content, mimetype)\<close>\<close>

text \<open>The class of the message decides whether it has \<^verbatim>\<open>alternatives\<close>, each a pair
  \<^verbatim>\<open>(content, mimetype)\<close>.\<close>

datatype msg_class =
    EmailMessage
  | EmailMultiAlternatives "(string \<times> string) list"

record email_message =
  msg_class :: msg_class
  from_email :: string
  subject :: string
  to :: "string list"
  cc :: "string list"
  bcc :: "string list"
  body :: string
  content_subtype :: string
  attachments :: "attch list"
  extra_headers :: "(string \<times> pyval) list"
  custom_args :: "(string \<times> pyval) list option"
  template_id :: "pyval option"
  substitutions :: "(string \<times> pyval) list option"
  dynamic_template_data :: "pyval option"
  ip_pool_name :: "pyval option"
  send_at :: "pyval option"
  reply_to :: "addr_arg option"
  categories :: "string list option"
  asm :: "(string \<times> pyval) list option"

section \<open>The payload\<close>

record sg_email =
  email :: pyval
  name :: pyval

record personalization =
  p_tos :: "sg_email list"
  p_ccs :: "sg_email list"
  p_bccs :: "sg_email list"
  p_custom_args :: "(string \<times> pyval) list"
  p_subject :: string
  p_headers :: "(string \<times> pyval) list"
  p_substitutions :: "(string \<times> pyval) list"
  p_dynamic_template_data :: "pyval option"
  p_send_at :: "pyval option"

record attachment =
  att_filename :: string
  att_content :: string
  att_type :: string
  att_content_id :: "string option"
  att_disposition :: "string option"

record content =
  c_type :: string
  c_value :: string

record sg_asm =
  group_id :: pyval
  groups_to_display :: "pyval option"

record mail =
  mail_from_email :: sg_email
  mail_subject :: string
  mail_personalizations :: "personalization list"
  mail_template_id :: "pyval option"
  mail_ip_pool_name :: "pyval option"
  mail_reply_to :: "sg_email option"
  mail_attachments :: "attachment list"
  mail_contents :: "content list"
  mail_categories :: "string list"
  mail_asm :: "sg_asm option"
  mail_sandbox_mode :: bool
  mail_open_tracking :: bool
  mail_click_tracking :: bool
  mail_subscription_tracking :: bool

section \<open>Collaborators\<close>

text \<open>
  The code calls into libraries that are not part of the repository. They are parameters
  of the model, so every theorem holds whatever they compute:
  \<^item> \<open>parseaddr\<close> is \<^verbatim>\<open>email.utils.parseaddr\<close>, returning \<^verbatim>\<open>(realname, address)\<close>;
  \<^item> \<open>Email\<close> is the constructor \<^verbatim>\<open>sendgrid.helpers.mail.Email(email, name)\<close>; the call
    \<^verbatim>\<open>Email(v)\<close> is \<^verbatim>\<open>Email(v, None)\<close>;
  \<^item> \<open>guess_extension\<close> is \<^verbatim>\<open>mimetypes.guess_extension\<close>;
  \<^item> \<open>uuid4_hex n\<close> is the value of the \<open>n\<close>-th evaluation of \<^verbatim>\<open>uuid.uuid4().hex\<close>;
  \<^item> \<open>post\<close> is \<^verbatim>\<open>self.sg.client.mail.send.post\<close>, \<open>None\<close> when it raises \<^verbatim>\<open>HTTPError\<close>.
\<close>

record response =
  status_code :: int
  x_message_id :: "string option"  \<comment> \<open>\<^verbatim>\<open>headers.get('x-message-id', None)\<close>\<close>

record lib =
  parseaddr :: "addr_arg \<Rightarrow> string \<times> string"
  Email :: "pyval \<Rightarrow> string option \<Rightarrow> sg_email"
  guess_extension :: "string \<Rightarrow> string option"
  uuid4_hex :: "nat \<Rightarrow> string"
  post :: "mail \<Rightarrow> response option"

text \<open>The attributes of \<^verbatim>\<open>self\<close> that are read after construction.\<close>

record backend =
  sandbox_mode :: bool
  track_email :: bool
  track_click :: bool
  subscription :: bool
  fail_silently :: bool

text \<open>The exceptions. Every \<^verbatim>\<open>raise ValueError\<close> of \<^verbatim>\<open>_build_sg_mail\<close> carries one of
  four complaints: about the pool name (its type or its length), about \<^verbatim>\<open>send_at\<close>, about
  a header and a field that disagree on the reply-to, and about more than one reply-to.
  \<open>KeyError\<close> is raised for a subscription descriptor without \<^verbatim>\<open>group_id\<close>,
  \<open>IndexError\<close> is what \<^verbatim>\<open>msg.reply_to[0]\<close> raises on an empty list, \<open>HTTPError\<close> comes
  from the transport.\<close>

datatype value_error = InvalidPoolName | InvalidSendAt | ReplyToConflict | TooManyReplyTo

datatype error = ValueError value_error | KeyError | IndexError | HTTPError

section \<open>Building the payload\<close>

definition parse_email_address :: "lib \<Rightarrow> addr_arg \<Rightarrow> string \<times> string option" where
  "parse_email_address L address =
     (let (nm, addr) = parseaddr L address
      in (addr, if nm = [] then None else Some nm))"

text \<open>\<^verbatim>\<open>Email(*self._parse_email_address(a))\<close>\<close>

definition parsed_Email :: "lib \<Rightarrow> addr_arg \<Rightarrow> sg_email" where
  "parsed_Email L a = (let (addr, nm) = parse_email_address L a in Email L (PyStr addr) nm)"

text \<open>The loop over \<^verbatim>\<open>msg.extra_headers.items()\<close>; its state is \<^verbatim>\<open>mail.reply_to\<close> and
  the headers of the personalization.\<close>

fun headers_loop ::
  "lib \<Rightarrow> (string \<times> pyval) list \<Rightarrow> sg_email option \<times> (string \<times> pyval) list
     \<Rightarrow> sg_email option \<times> (string \<times> pyval) list" where
  "headers_loop L [] st = st"
| "headers_loop L ((k, v) # kvs) (rt, hs) =
     (if lower k = ''reply-to''
      then headers_loop L kvs (Some (Email L v None), hs)
      else headers_loop L kvs (rt, hs @ [(k, v)]))"

text \<open>Lines 191 to 204: the explicit \<^verbatim>\<open>reply_to\<close> field against \<^verbatim>\<open>mail.reply_to\<close>.\<close>

definition differs :: "sg_email \<Rightarrow> sg_email \<Rightarrow> bool" where
  "differs a b = (email a \<noteq> email b \<or> name a \<noteq> name b)"

definition reconcile_reply_to ::
  "lib \<Rightarrow> addr_arg option \<Rightarrow> sg_email option \<Rightarrow> error + sg_email option" where
  "reconcile_reply_to L field rt =
     (case field of
        None \<Rightarrow> Inr rt
      | Some r \<Rightarrow>
          if \<not> truthy r then Inr rt
          else if (case rt of None \<Rightarrow> False | Some h \<Rightarrow> differs (parsed_Email L r) h)
          then Inl (ValueError ReplyToConflict)
          else (case r of
                  AddrStr s \<Rightarrow> Inr (Some (parsed_Email L (AddrStr s)))
                | AddrList ss \<Rightarrow>
                    if length ss > 1 then Inl (ValueError TooManyReplyTo)
                    else (case ss of
                            [] \<Rightarrow> Inl IndexError
                          | s # _ \<Rightarrow> Inr (Some (parsed_Email L (AddrStr s))))))"

text \<open>Lines 206 to 237: one attachment. The number counts the evaluations of
  \<^verbatim>\<open>uuid.uuid4()\<close> made so far.\<close>

definition none_str :: "string option \<Rightarrow> string" where
  "none_str x = (case x of None \<Rightarrow> ''None'' | Some s \<Rightarrow> s)"

definition strip_brackets :: "string \<Rightarrow> string" where
  "strip_brackets cid =
     (if cid \<noteq> [] \<and> hd cid = CHR ''<'' \<and> last cid = CHR ''>''
      then butlast (tl cid) else cid)"

fun utf8_char :: "char \<Rightarrow> bytes" where
  "utf8_char c =
     (let n = (of_char c :: nat)
      in if n < 128 then [of_nat n]
         else [of_nat (192 + n div 64), of_nat (128 + n mod 64)])"

definition encode_utf8 :: "string \<Rightarrow> bytes" where
  "encode_utf8 s = concat (map utf8_char s)"

definition b64chars :: string where
  "b64chars = ''ABCDEFGHIJKLMNOPQRSTUVWXYZabcdefghijklmnopqrstuvwxyz0123456789+/''"

definition b64char :: "nat \<Rightarrow> char" where
  "b64char i = b64chars ! i"

fun b64encode :: "bytes \<Rightarrow> string" where
  "b64encode [] = []"
| "b64encode [a] =
     [b64char (unat a div 4), b64char (unat a mod 4 * 16), CHR ''='', CHR ''='']"
| "b64encode [a, b] =
     [b64char (unat a div 4), b64char (unat a mod 4 * 16 + unat b div 16),
      b64char (unat b mod 16 * 4), CHR ''='']"
| "b64encode (a # b # c # rest) =
     [b64char (unat a div 4), b64char (unat a mod 4 * 16 + unat b div 16),
      b64char (unat b mod 16 * 4 + unat c div 64), b64char (unat c mod 64)]
     @ b64encode rest"

definition build_attachment :: "lib \<Rightarrow> nat \<Rightarrow> attch \<Rightarrow> attachment \<times> nat" where
  "build_attachment L n attch =
     (case attch of
        MIMEBase p \<Rightarrow>
          (let named = (case get_filename p of None \<Rightarrow> False | Some f \<Rightarrow> f \<noteq> []);
               filename =
                 (if named then the (get_filename p)
                  else ''part-'' @ uuid4_hex L n
                         @ none_str (guess_extension L (get_content_type p)));
               a = \<lparr>att_filename = filename,
                    att_content = filter (\<lambda>c. c \<noteq> CHR 0x0A) (get_payload p),
                    att_type = get_content_type p,
                    att_content_id = None, att_disposition = None\<rparr>;
               a' = (case get_content_id p of
                       None \<Rightarrow> a
                     | Some cid \<Rightarrow>
                         if cid = [] then a
                         else a\<lparr>att_content_id := Some (strip_brackets cid),
                                att_disposition := Some ''inline''\<rparr>)
           in (a', if named then n else Suc n))
      | Tuple filename content mimetype \<Rightarrow>
          (let content' = (case content of Text s \<Rightarrow> encode_utf8 s | Bytes b \<Rightarrow> b)
           in (\<lparr>att_filename = filename,
                att_content = b64encode content',
                att_type = mimetype,
                att_content_id = None, att_disposition = None\<rparr>, n)))"

fun build_attachments :: "lib \<Rightarrow> nat \<Rightarrow> attch list \<Rightarrow> attachment list" where
  "build_attachments L n [] = []"
| "build_attachments L n (a # as) =
     (let (x, n') = build_attachment L n a in x # build_attachments L n' as)"

text \<open>Lines 239 to 250: the body and the content parts.\<close>

definition coerce_body :: "string \<Rightarrow> string" where
  "coerce_body b = (if b = [] then '' '' else b)"

definition build_contents :: "msg_class \<Rightarrow> string \<Rightarrow> string \<Rightarrow> content list" where
  "build_contents cls subtype b =
     (case cls of
        EmailMultiAlternatives alts \<Rightarrow>
          \<lparr>c_type = ''text/plain'', c_value = b\<rparr>
          # map (\<lambda>alt. \<lparr>c_type = snd alt, c_value = fst alt\<rparr>)
                (filter (\<lambda>alt. snd alt = ''text/html'') alts)
      | EmailMessage \<Rightarrow>
          if subtype = ''html''
          then [\<lparr>c_type = ''text/plain'', c_value = '' ''\<rparr>,
                \<lparr>c_type = ''text/html'', c_value = b\<rparr>]
          else [\<lparr>c_type = ''text/plain'', c_value = b\<rparr>])"

text \<open>Lines 256 to 263.\<close>

definition build_asm :: "(string \<times> pyval) list option \<Rightarrow> error + sg_asm option" where
  "build_asm a =
     (case a of
        None \<Rightarrow> Inr None
      | Some d \<Rightarrow>
          (case map_of d ''group_id'' of
             None \<Rightarrow> Inl KeyError
           | Some g \<Rightarrow>
               Inr (Some \<lparr>group_id = g, groups_to_display = map_of d ''groups_to_display''\<rparr>)))"

text \<open>Lines 165 to 187: the two pass-through fields.\<close>

definition pool_name_ok :: "pyval option \<Rightarrow> bool" where
  "pool_name_ok p =
     (case p of
        None \<Rightarrow> True
      | Some v \<Rightarrow>
          if \<not> is_basestring v then False
          else (case v of PyStr s \<Rightarrow> 2 \<le> length s \<and> length s \<le> 64 | _ \<Rightarrow> False))"

definition send_at_ok :: "pyval option \<Rightarrow> bool" where
  "send_at_ok t = (case t of None \<Rightarrow> True | Some v \<Rightarrow> is_int v)"

text \<open>\<^verbatim>\<open>_build_sg_mail\<close>. It assigns to \<^verbatim>\<open>msg.body\<close>, so the message is returned too: as it
  is when an exception leaves the function before line 239, with the new body after.\<close>

definition build_personalization ::
  "lib \<Rightarrow> email_message \<Rightarrow> (string \<times> pyval) list \<Rightarrow> personalization" where
  "build_personalization L msg hs =
     \<lparr>p_tos = map (\<lambda>a. parsed_Email L (AddrStr a)) (to msg),
      p_ccs = map (\<lambda>a. parsed_Email L (AddrStr a)) (cc msg),
      p_bccs = map (\<lambda>a. parsed_Email L (AddrStr a)) (bcc msg),
      p_custom_args = (case custom_args msg of None \<Rightarrow> [] | Some d \<Rightarrow> d),
      p_subject = subject msg,
      p_headers = hs,
      p_substitutions =
        (if template_id msg = None then []
         else case substitutions msg of None \<Rightarrow> [] | Some d \<Rightarrow> d),
      p_dynamic_template_data =
        (if template_id msg = None then None else dynamic_template_data msg),
      p_send_at = send_at msg\<rparr>"

definition build_sg_mail ::
  "lib \<Rightarrow> backend \<Rightarrow> email_message \<Rightarrow> email_message \<times> (error + mail)" where
  "build_sg_mail L self msg =
     (let (rt, hs) = headers_loop L (extra_headers msg) (None, [])
      in if \<not> pool_name_ok (ip_pool_name msg) then (msg, Inl (ValueError InvalidPoolName))
         else if \<not> send_at_ok (send_at msg) then (msg, Inl (ValueError InvalidSendAt))
         else (case reconcile_reply_to L (reply_to msg) rt of
                 Inl e \<Rightarrow> (msg, Inl e)
               | Inr rt' \<Rightarrow>
                   (let msg' = msg\<lparr>body := coerce_body (body msg)\<rparr>
                    in (case build_asm (asm msg') of
                          Inl e \<Rightarrow> (msg', Inl e)
                        | Inr a \<Rightarrow>
                            (msg', Inr
                              \<lparr>mail_from_email = parsed_Email L (AddrStr (from_email msg)),
                               mail_subject = subject msg,
                               mail_personalizations = [build_personalization L msg hs],
                               mail_template_id = template_id msg,
                               mail_ip_pool_name = ip_pool_name msg,
                               mail_reply_to = rt',
                               mail_attachments = build_attachments L 0 (attachments msg),
                               mail_contents =
                                 build_contents (msg_class msg') (content_subtype msg')
                                   (body msg'),
                               mail_categories =
                                 (case categories msg' of None \<Rightarrow> [] | Some cs \<Rightarrow> cs),
                               mail_asm = a,
                               mail_sandbox_mode = sandbox_mode self,
                               mail_open_tracking = track_email self,
                               mail_click_tracking = track_click self,
                               mail_subscription_tracking = subscription self\<rparr>)))))"

definition asm_ok :: "(string \<times> pyval) list option \<Rightarrow> bool" where
  "asm_ok a = (case a of None \<Rightarrow> True | Some d \<Rightarrow> map_of d ''group_id'' \<noteq> None)"

text \<open>What the loop over the headers computes, said without the loop: the values of the
  headers named \<^verbatim>\<open>reply-to\<close> in any mix of cases, and the other headers.\<close>

definition header_reply_to :: "lib \<Rightarrow> email_message \<Rightarrow> sg_email option" where
  "header_reply_to L msg = fst (headers_loop L (extra_headers msg) (None, []))"

definition reply_to_values :: "(string \<times> pyval) list \<Rightarrow> pyval list" where
  "reply_to_values kvs = map snd (filter (\<lambda>kv. lower (fst kv) = ''reply-to'') kvs)"

definition other_headers :: "(string \<times> pyval) list \<Rightarrow> (string \<times> pyval) list" where
  "other_headers kvs = filter (\<lambda>kv. lower (fst kv) \<noteq> ''reply-to'') kvs"

section \<open>Sending\<close>






text \<open>The attachments whose filename is synthesized, each costing one evaluation of
  \<^verbatim>\<open>uuid.uuid4()\<close>, and the bytes that a tuple attachment hands to the base64 encoder.\<close>

definition synthesized :: "attch \<Rightarrow> bool" where
  "synthesized a =
     (case a of
        MIMEBase p \<Rightarrow> (case get_filename p of None \<Rightarrow> True | Some f \<Rightarrow> f = [])
      | Tuple f c t \<Rightarrow> False)"

definition tuple_bytes :: "att_content \<Rightarrow> bytes" where
  "tuple_bytes c = (case c of Text s \<Rightarrow> encode_utf8 s | Bytes b \<Rightarrow> b)"

section \<open>Decoding base64\<close>




section \<open>A sample of the collaborators\<close>

text \<open>
  To run the model on concrete messages the parameters need values. \<open>sample_parseaddr\<close>
  splits the two everyday shapes of an address, \<^verbatim>\<open>Display Name <address>\<close> and a bare
  \<^verbatim>\<open>address\<close>, and takes the first entry of a list. \<open>sample_Email\<close> follows the
  constructor of the provider's library: given a name it stores both arguments, given
  none it splits its first argument the same way, and a result without \<^verbatim>\<open>@\<close> is taken
  for a name.
\<close>

definition strip :: "string \<Rightarrow> string" where
  "strip s = rev (dropWhile (\<lambda>c. c = CHR '' '') (rev (dropWhile (\<lambda>c. c = CHR '' '') s)))"

definition split_address :: "string \<Rightarrow> string \<times> string" where
  "split_address s =
     (if CHR ''<'' \<in> set s
      then (strip (takeWhile (\<lambda>c. c \<noteq> CHR ''<'') s),
            takeWhile (\<lambda>c. c \<noteq> CHR ''>'') (tl (dropWhile (\<lambda>c. c \<noteq> CHR ''<'') s)))
      else ([], strip s))"

fun sample_parseaddr :: "addr_arg \<Rightarrow> string \<times> string" where
  "sample_parseaddr (AddrStr s) = split_address s"
| "sample_parseaddr (AddrList []) = ([], [])"
| "sample_parseaddr (AddrList (s # ss)) = split_address s"

fun sample_Email :: "pyval \<Rightarrow> string option \<Rightarrow> sg_email" where
  "sample_Email (PyStr s) None =
     (if s = [] then \<lparr>email = PyNone, name = PyNone\<rparr>
      else (let (nm, addr) = split_address s
            in if CHR ''@'' \<in> set addr
               then \<lparr>email = PyStr addr, name = (if nm = [] then PyNone else PyStr nm)\<rparr>
               else \<lparr>email = PyNone, name = (if addr = [] then PyNone else PyStr addr)\<rparr>))"
| "sample_Email e None = \<lparr>email = e, name = PyNone\<rparr>"
| "sample_Email e (Some nm) = \<lparr>email = e, name = PyStr nm\<rparr>"

definition sample_lib :: lib where
  "sample_lib =
     \<lparr>parseaddr = sample_parseaddr,
      Email = sample_Email,
      guess_extension = (\<lambda>t. if t = ''image/png'' then Some ''.png'' else None),
      uuid4_hex = (\<lambda>n. replicate 31 CHR ''0'' @ [''0123456789'' ! (n mod 10)]),
      post = (\<lambda>m. Some \<lparr>status_code = 202, x_message_id = Some ''abc123''\<rparr>)\<rparr>"

definition sample_backend :: backend where
  "sample_backend =
     \<lparr>sandbox_mode = False, track_email = True, track_click = True,
      subscription = False, fail_silently = False\<rparr>"

text \<open>A plain message with nothing optional set, to be varied field by field.\<close>

definition plain_message :: email_message where
  "plain_message =
     \<lparr>msg_class = EmailMessage,
      from_email = ''Sam Smith <sam.smith@example.com>'',
      subject = ''Hello, World!'',
      to = [''John Doe <john.doe@example.com>''],
      cc = [], bcc = [],
      body = ''Hello, World!'',
      content_subtype = ''plain'',
      attachments = [],
      extra_headers = [],
      custom_args = None,
      template_id = None,
      substitutions = None,
      dynamic_template_data = None,
      ip_pool_name = None,
      send_at = None,
      reply_to = None,
      categories = None,
      asm = None\<rparr>"

section \<open>The shape of a build\<close>

lemma headers_loop_eq:
  "headers_loop L kvs (rt, hs) =
     (if reply_to_values kvs = [] then rt else Some (Email L (last (reply_to_values kvs)) None),
      hs @ other_headers kvs)"
proof (induction kvs arbitrary: rt hs)
  case Nil
  then show ?case by (simp add: reply_to_values_def other_headers_def)
next
  case (Cons kv kvs)
  obtain k v where kv: "kv = (k, v)" by (cases kv)
  show ?case
    unfolding kv using Cons.IH
    by (simp add: reply_to_values_def other_headers_def)
qed


lemma build_Inr_D:
  assumes "snd (build_sg_mail L self msg) = Inr m"
  shows "pool_name_ok (ip_pool_name msg)"
    and "send_at_ok (send_at msg)"
    and "reconcile_reply_to L (reply_to msg) (header_reply_to L msg) = Inr (mail_reply_to m)"
    and "build_asm (asm msg) = Inr (mail_asm m)"
    and "fst (build_sg_mail L self msg) = msg\<lparr>body := coerce_body (body msg)\<rparr>"
    and "mail_contents m =
           build_contents (msg_class msg) (content_subtype msg) (coerce_body (body msg))"
    and "mail_attachments m = build_attachments L 0 (attachments msg)"
    and "mail_personalizations m =
           [build_personalization L msg (other_headers (extra_headers msg))]"
    and "mail_ip_pool_name m = ip_pool_name msg"
  using assms
  by (auto simp: build_sg_mail_def header_reply_to_def headers_loop_eq Let_def
           split: prod.splits sum.splits if_splits)

lemma build_Inr_I:
  assumes "pool_name_ok (ip_pool_name msg)" and "send_at_ok (send_at msg)"
    and "reconcile_reply_to L (reply_to msg) (header_reply_to L msg) = Inr rt"
    and "asm_ok (asm msg)"
  shows "\<exists>m. snd (build_sg_mail L self msg) = Inr m \<and> mail_reply_to m = rt"
  using assms
  by (auto simp: build_sg_mail_def header_reply_to_def headers_loop_eq Let_def asm_ok_def
        build_asm_def split: prod.splits sum.splits if_splits option.splits)

lemma build_Inl_reconcile:
  assumes "pool_name_ok (ip_pool_name msg)" and "send_at_ok (send_at msg)"
    and "reconcile_reply_to L (reply_to msg) (header_reply_to L msg) = Inl e"
  shows "build_sg_mail L self msg = (msg, Inl e)"
  using assms
  by (auto simp: build_sg_mail_def header_reply_to_def Let_def split: prod.splits)


lemma build_Inr_projr:
  assumes "pool_name_ok (ip_pool_name msg)" and "send_at_ok (send_at msg)"
    and "reconcile_reply_to L (reply_to msg) (header_reply_to L msg) = Inr rt"
    and "asm_ok (asm msg)"
  shows "snd (build_sg_mail L self msg) = Inr (projr (snd (build_sg_mail L self msg)))"
proof -
  from build_Inr_I [OF assms] obtain m where "snd (build_sg_mail L self msg) = Inr m"
    by blast
  then show ?thesis by simp
qed

lemma plain_message_builds:
  assumes "ip_pool_name msg = None" and "send_at msg = None" and "reply_to msg = None"
    and "asm msg = None"
  shows "snd (build_sg_mail L self msg) = Inr (projr (snd (build_sg_mail L self msg)))"
  by (rule build_Inr_projr [where rt = "header_reply_to L msg"])
     (simp_all add: assms pool_name_ok_def send_at_ok_def reconcile_reply_to_def asm_ok_def)

lemma differs_iff: "differs a b \<longleftrightarrow> a \<noteq> b"
  by (cases a; cases b) (auto simp: differs_def)

section \<open>The body and the content parts\<close>

text \<open>
  Claim C6. A message whose body is the empty string, once built, has the single space in
  the content part that carries its body, never the empty string: the body is overwritten
  with a single space before the parts are made. For a multi-alternative message the
  body is the plain-text part in front of the html alternatives; for a message of
  subtype html it is the html part behind the placeholder; otherwise it is the only part.
\<close>

theorem empty_body_single_space:
  assumes "body msg = []" and "snd (build_sg_mail L self msg) = Inr m"
  shows "body (fst (build_sg_mail L self msg)) = '' '' \<and>
         mail_contents m =
           (case msg_class msg of
              EmailMultiAlternatives alts \<Rightarrow>
                \<lparr>c_type = ''text/plain'', c_value = '' ''\<rparr>
                # map (\<lambda>alt. \<lparr>c_type = ''text/html'', c_value = fst alt\<rparr>)
                      (filter (\<lambda>alt. snd alt = ''text/html'') alts)
            | EmailMessage \<Rightarrow>
                if content_subtype msg = ''html''
                then [\<lparr>c_type = ''text/plain'', c_value = '' ''\<rparr>,
                      \<lparr>c_type = ''text/html'', c_value = '' ''\<rparr>]
                else [\<lparr>c_type = ''text/plain'', c_value = '' ''\<rparr>])"
  using build_Inr_D(5,6) [OF assms(2)] assms(1)
  by (auto simp add: build_contents_def coerce_body_def split: msg_class.splits)

theorem empty_body_single_space_witness:
  "body (plain_message\<lparr>body := []\<rparr>) = [] \<and>
   mail_contents (projr (snd (build_sg_mail sample_lib sample_backend
       (plain_message\<lparr>body := []\<rparr>))))
     = [\<lparr>c_type = ''text/plain'', c_value = '' ''\<rparr>] \<and>
   mail_contents (projr (snd (build_sg_mail sample_lib sample_backend
       (plain_message\<lparr>body := [], content_subtype := ''html''\<rparr>))))
     = [\<lparr>c_type = ''text/plain'', c_value = '' ''\<rparr>,
        \<lparr>c_type = ''text/html'', c_value = '' ''\<rparr>] \<and>
   mail_contents (projr (snd (build_sg_mail sample_lib sample_backend
       (plain_message\<lparr>body := [],
          msg_class := EmailMultiAlternatives [(''<p>Hi</p>'', ''text/html'')]\<rparr>))))
     = [\<lparr>c_type = ''text/plain'', c_value = '' ''\<rparr>,
        \<lparr>c_type = ''text/html'', c_value = ''<p>Hi</p>''\<rparr>]"
proof -
  let ?a = "plain_message\<lparr>body := []\<rparr>"
  let ?b = "plain_message\<lparr>body := [], content_subtype := ''html''\<rparr>"
  let ?c = "plain_message\<lparr>body := [],
              msg_class := EmailMultiAlternatives [(''<p>Hi</p>'', ''text/html'')]\<rparr>"
  have a: "snd (build_sg_mail sample_lib sample_backend ?a)
             = Inr (projr (snd (build_sg_mail sample_lib sample_backend ?a)))"
    by (rule plain_message_builds) (simp_all add: plain_message_def)
  have b: "snd (build_sg_mail sample_lib sample_backend ?b)
             = Inr (projr (snd (build_sg_mail sample_lib sample_backend ?b)))"
    by (rule plain_message_builds) (simp_all add: plain_message_def)
  have c: "snd (build_sg_mail sample_lib sample_backend ?c)
             = Inr (projr (snd (build_sg_mail sample_lib sample_backend ?c)))"
    by (rule plain_message_builds) (simp_all add: plain_message_def)
  show ?thesis
    using empty_body_single_space [OF _ a] empty_body_single_space [OF _ b]
      empty_body_single_space [OF _ c]
    by (simp add: plain_message_def)
qed



text \<open>
  Claim C7, as the code has it. The two parts, a plain-text placeholder holding a single
  space and then the \<^verbatim>\<open>text/html\<close> part holding the body, are what a message gets that
  is not an instance of the multi-alternative class and whose subtype is \<^verbatim>\<open>html\<close>; the
  body is the one the message has after the build, a single space when it was empty.
\<close>

theorem html_subtype_two_parts:
  assumes "msg_class msg = EmailMessage" and "content_subtype msg = ''html''"
    and "snd (build_sg_mail L self msg) = Inr m"
  shows "mail_contents m =
           [\<lparr>c_type = ''text/plain'', c_value = '' ''\<rparr>,
            \<lparr>c_type = ''text/html'', c_value = body (fst (build_sg_mail L self msg))\<rparr>]
         \<and> body (fst (build_sg_mail L self msg)) = (if body msg = [] then '' '' else body msg)"
  using build_Inr_D(5,6) [OF assms(3)] assms(1,2)
  by (simp add: build_contents_def coerce_body_def)

theorem html_subtype_two_parts_witness:
  "msg_class (plain_message\<lparr>content_subtype := ''html'', body := ''<p>Hi</p>''\<rparr>) = EmailMessage \<and>
   content_subtype (plain_message\<lparr>content_subtype := ''html'', body := ''<p>Hi</p>''\<rparr>) = ''html'' \<and>
   mail_contents (projr (snd (build_sg_mail sample_lib sample_backend
       (plain_message\<lparr>content_subtype := ''html'', body := ''<p>Hi</p>''\<rparr>))))
     = [\<lparr>c_type = ''text/plain'', c_value = '' ''\<rparr>,
        \<lparr>c_type = ''text/html'', c_value = ''<p>Hi</p>''\<rparr>]"
proof -
  let ?M = "plain_message\<lparr>content_subtype := ''html'', body := ''<p>Hi</p>''\<rparr>"
  have ok: "snd (build_sg_mail sample_lib sample_backend ?M)
             = Inr (projr (snd (build_sg_mail sample_lib sample_backend ?M)))"
    by (rule plain_message_builds) (simp_all add: plain_message_def)
  have cls: "msg_class ?M = EmailMessage" by (simp add: plain_message_def)
  have sub: "content_subtype ?M = ''html''" by simp
  show ?thesis
    using html_subtype_two_parts [OF cls sub ok] cls
    by simp
qed

text \<open>
  The class is tested first, the subtype only for the other messages. A
  multi-alternative message that carries no alternative and declares the subtype
  \<^verbatim>\<open>html\<close> is built into a single part, its body as \<^verbatim>\<open>text/plain\<close>.
\<close>

theorem html_subtype_counterexample:
  "content_subtype (plain_message\<lparr>msg_class := EmailMultiAlternatives [],
       content_subtype := ''html'', body := ''<p>Hi</p>''\<rparr>) = ''html'' \<and>
   \<not> isl (snd (build_sg_mail sample_lib sample_backend
       (plain_message\<lparr>msg_class := EmailMultiAlternatives [],
          content_subtype := ''html'', body := ''<p>Hi</p>''\<rparr>))) \<and>
   mail_contents (projr (snd (build_sg_mail sample_lib sample_backend
       (plain_message\<lparr>msg_class := EmailMultiAlternatives [],
          content_subtype := ''html'', body := ''<p>Hi</p>''\<rparr>))))
     = [\<lparr>c_type = ''text/plain'', c_value = ''<p>Hi</p>''\<rparr>]"
proof -
  let ?M = "plain_message\<lparr>msg_class := EmailMultiAlternatives [],
              content_subtype := ''html'', body := ''<p>Hi</p>''\<rparr>"
  have ok: "snd (build_sg_mail sample_lib sample_backend ?M)
             = Inr (projr (snd (build_sg_mail sample_lib sample_backend ?M)))"
    by (rule plain_message_builds) (simp_all add: plain_message_def)
  have "\<not> isl (snd (build_sg_mail sample_lib sample_backend ?M))"
    by (subst ok) simp
  then show ?thesis
    using build_Inr_D(6) [OF ok]
    by (simp add: build_contents_def coerce_body_def)
qed












section \<open>What a build and a send change in the message\<close>




section \<open>The reply-to field and the pool name\<close>





section \<open>Base64 and the attachments\<close>





















lemma build_attachment_snd:
  "snd (build_attachment L n a) = (if synthesized a then Suc n else n)"
  by (auto simp: build_attachment_def synthesized_def Let_def
      split: attch.splits option.splits)

lemma length_build_attachments: "length (build_attachments L n as) = length as"
  by (induction as arbitrary: n) (auto split: prod.splits)

lemma build_attachments_nth:
  "i < length as \<Longrightarrow>
   build_attachments L n as ! i
     = fst (build_attachment L (n + length (filter synthesized (take i as))) (as ! i))"
proof (induction as arbitrary: n i)
  case Nil
  then show ?case by simp
next
  case (Cons a as)
  obtain x n' where b: "build_attachment L n a = (x, n')"
    by (cases "build_attachment L n a")
  have n': "n' = (if synthesized a then Suc n else n)"
    using build_attachment_snd [of L n a] b by simp
  show ?case
  proof (cases i)
    case 0
    then show ?thesis by (simp add: b)
  next
    case (Suc j)
    with Cons.prems have "j < length as" by simp
    from Cons.IH [OF this, of n'] show ?thesis
      by (simp add: b Suc n')
  qed
qed

lemma tuple_attachment:
  "fst (build_attachment L n (Tuple f c t))
     = \<lparr>att_filename = f, att_content = b64encode (tuple_bytes c), att_type = t,
        att_content_id = None, att_disposition = None\<rparr>"
  by (simp add: build_attachment_def tuple_bytes_def)

lemma mime_attachment_filename:
  "att_filename (fst (build_attachment L n (MIMEBase p)))
     = (if synthesized (MIMEBase p)
        then ''part-'' @ uuid4_hex L n @ none_str (guess_extension L (get_content_type p))
        else the (get_filename p))"
  by (auto simp: build_attachment_def synthesized_def Let_def split: option.splits)



text \<open>
  Claim C4, as the code has it. The payload has one attachment for each attachment of the
  message, in the same order. A structured attachment always gets a filename that is not
  empty: its own when it has one that is not empty, and otherwise \<^verbatim>\<open>part-\<close>, a fresh
  random hex token and the extension guessed from the declared content type (the text
  \<^verbatim>\<open>None\<close> when none is guessed). A tuple attachment keeps the filename it was given.
\<close>

theorem attachment_filenames:
  assumes "snd (build_sg_mail L self msg) = Inr m"
  shows "length (mail_attachments m) = length (attachments msg) \<and>
         (\<forall>i < length (attachments msg).
            case attachments msg ! i of
              MIMEBase p \<Rightarrow>
                att_filename (mail_attachments m ! i) \<noteq> [] \<and>
                att_filename (mail_attachments m ! i)
                  = (case get_filename p of
                       Some (c # cs) \<Rightarrow> c # cs
                     | _ \<Rightarrow> ''part-''
                           @ uuid4_hex L (length (filter synthesized (take i (attachments msg))))
                           @ (case guess_extension L (get_content_type p) of
                                None \<Rightarrow> ''None'' | Some ext \<Rightarrow> ext))
            | Tuple f c t \<Rightarrow> att_filename (mail_attachments m ! i) = f)"
proof (intro conjI allI impI)
  show "length (mail_attachments m) = length (attachments msg)"
    using build_Inr_D(7) [OF assms] by (simp add: length_build_attachments)
next
  fix i assume i: "i < length (attachments msg)"
  have nth: "mail_attachments m ! i
               = fst (build_attachment L (length (filter synthesized (take i (attachments msg))))
                        (attachments msg ! i))"
    using build_Inr_D(7) [OF assms] build_attachments_nth [OF i, of L 0] by simp
  show "case attachments msg ! i of
          MIMEBase p \<Rightarrow>
            att_filename (mail_attachments m ! i) \<noteq> [] \<and>
            att_filename (mail_attachments m ! i)
              = (case get_filename p of
                   Some (c # cs) \<Rightarrow> c # cs
                 | _ \<Rightarrow> ''part-''
                       @ uuid4_hex L (length (filter synthesized (take i (attachments msg))))
                       @ (case guess_extension L (get_content_type p) of
                            None \<Rightarrow> ''None'' | Some ext \<Rightarrow> ext))
        | Tuple f c t \<Rightarrow> att_filename (mail_attachments m ! i) = f"
    by (auto simp: nth tuple_attachment mime_attachment_filename synthesized_def none_str_def
        split: attch.splits option.splits list.splits)
qed

theorem attachment_filenames_witness:
  "att_filename (mail_attachments (projr (snd (build_sg_mail sample_lib sample_backend
     (plain_message\<lparr>attachments :=
        [MIMEBase \<lparr>get_filename = None, get_content_type = ''image/png'',
                   get_payload = ''aGk='', get_content_id = None\<rparr>,
         Tuple ''notes.txt'' (Text ''hello'') ''text/plain'']\<rparr>)))) ! 0)
     = ''part-00000000000000000000000000000000.png'' \<and>
   att_filename (mail_attachments (projr (snd (build_sg_mail sample_lib sample_backend
     (plain_message\<lparr>attachments :=
        [MIMEBase \<lparr>get_filename = None, get_content_type = ''image/png'',
                   get_payload = ''aGk='', get_content_id = None\<rparr>,
         Tuple ''notes.txt'' (Text ''hello'') ''text/plain'']\<rparr>)))) ! 1)
     = ''notes.txt''"
proof -
  let ?M = "plain_message\<lparr>attachments :=
        [MIMEBase \<lparr>get_filename = None, get_content_type = ''image/png'',
                   get_payload = ''aGk='', get_content_id = None\<rparr>,
         Tuple ''notes.txt'' (Text ''hello'') ''text/plain'']\<rparr>"
  have ok: "snd (build_sg_mail sample_lib sample_backend ?M)
             = Inr (projr (snd (build_sg_mail sample_lib sample_backend ?M)))"
    by (rule plain_message_builds) (simp_all add: plain_message_def)
  note w = attachment_filenames [OF ok, THEN conjunct2, rule_format]
  have u: "uuid4_hex sample_lib 0 = ''00000000000000000000000000000000''"
    by code_simp
  have g: "guess_extension sample_lib ''image/png'' = Some ''.png''"
    by (simp add: sample_lib_def)
  have 0: "att_filename (mail_attachments (projr (snd
             (build_sg_mail sample_lib sample_backend ?M))) ! 0)
             = ''part-00000000000000000000000000000000.png''"
    using w [of 0] by (simp add: u g)
  have 1: "att_filename (mail_attachments (projr (snd
             (build_sg_mail sample_lib sample_backend ?M))) ! 1) = ''notes.txt''"
    using w [of 1] by simp
  show ?thesis using 0 1 by blast
qed

text \<open>
  So a tuple attachment given the empty filename is an attachment of the payload with an
  empty filename.
\<close>

theorem attachment_filenames_counterexample:
  "\<not> isl (snd (build_sg_mail sample_lib sample_backend
       (plain_message\<lparr>attachments := [Tuple [] (Text ''hello'') ''text/plain'']\<rparr>))) \<and>
   map att_filename (mail_attachments (projr (snd (build_sg_mail sample_lib sample_backend
       (plain_message\<lparr>attachments := [Tuple [] (Text ''hello'') ''text/plain'']\<rparr>)))))
     = [[]]"
proof -
  let ?M = "plain_message\<lparr>attachments := [Tuple [] (Text ''hello'') ''text/plain'']\<rparr>"
  have ok: "snd (build_sg_mail sample_lib sample_backend ?M)
             = Inr (projr (snd (build_sg_mail sample_lib sample_backend ?M)))"
    by (rule plain_message_builds) (simp_all add: plain_message_def)
  have "\<not> isl (snd (build_sg_mail sample_lib sample_backend ?M))"
    by (subst ok) simp
  then show ?thesis
    using build_Inr_D(7) [OF ok]
    by (simp add: build_attachment_def)
qed

end
